theory Spec2Isabelle
  imports Main
begin

section \<open>Data of the permissions context\<close>

text \<open>
  The interface \<^verbatim>\<open>PagePermission\<close> of \<^verbatim>\<open>src/contexts/PermissionsContext.tsx\<close>.
  The field \<^verbatim>\<open>id\<close> is named \<open>id_field\<close>, since \<open>id\<close> is the identity function of HOL.
\<close>

record PagePermission =
  id_field :: string
  page_name :: string
  route :: string
  admin_access :: bool
  manager_access :: bool
  user_access :: bool

text \<open>
  The identity handle. Only \<^verbatim>\<open>user.id\<close> is read; \<open>ref\<close> is the identity of the
  object, which is what a dependency array compares (\<^verbatim>\<open>Object.is\<close>).
\<close>

record User =
  ref :: nat
  user_id :: string

text \<open>
  What \<^verbatim>\<open>useAuth()\<close> returns. Its field \<^verbatim>\<open>loading\<close> carries the name
  \<^verbatim>\<open>authLoading\<close> that \<^verbatim>\<open>PermissionsProvider\<close> gives it.
\<close>

record auth =
  user :: "User option"
  authLoading :: bool

text \<open>The four \<^verbatim>\<open>useState\<close> cells of \<^verbatim>\<open>PermissionsProvider\<close>.\<close>

record state =
  userRole :: string
  permissions :: "PagePermission list"
  loading :: bool
  hasFetched :: bool

definition initial :: state where
  "initial = \<lparr>userRole = ''user'', permissions = [], loading = True, hasFetched = False\<rparr>"

section \<open>The access decision\<close>

text \<open>
  \<^verbatim>\<open>route.replace(/\/$/, '')\<close>: the pattern has no flag, so \<^verbatim>\<open>$\<close> is the end of the
  input and at most one slash, the last character, is removed.
\<close>

definition replace_trailing_slash :: "string \<Rightarrow> string" where
  "replace_trailing_slash r = (if r \<noteq> [] \<and> last r = CHR ''/'' then butlast r else r)"

definition normalizedRoute :: "string \<Rightarrow> string" where
  "normalizedRoute r = (if r = ''/'' then ''/dashboard'' else replace_trailing_slash r)"

text \<open>
  \<^verbatim>\<open>hasPageAccess\<close> closes over \<^verbatim>\<open>permissions\<close> and \<^verbatim>\<open>userRole\<close> of the render, here
  the state \<open>s\<close>. \<^verbatim>\<open>Array.prototype.find\<close> is \<^const>\<open>List.find\<close>: the first match or
  nothing. The \<^verbatim>\<open>switch\<close> has the cases \<^verbatim>\<open>'admin'\<close>, \<^verbatim>\<open>'manager'\<close> and a shared
  \<^verbatim>\<open>'user'\<close>/\<^verbatim>\<open>default\<close> branch.
\<close>

definition hasPageAccess :: "state \<Rightarrow> string \<Rightarrow> bool" where
  "hasPageAccess s r =
     (case List.find (\<lambda>p. route p = normalizedRoute r) (permissions s) of
        None \<Rightarrow> True
      | Some permission \<Rightarrow>
          (if userRole s = ''admin'' then admin_access permission
           else if userRole s = ''manager'' then manager_access permission
           else user_access permission))"

section \<open>The context hook\<close>

text \<open>
  \<^verbatim>\<open>useContext\<close> gives the value of the nearest enclosing provider, or the default the
  context was created with when there is none. The providers above the caller are a list,
  nearest first. \<^verbatim>\<open>PermissionsContext\<close> is created with \<^verbatim>\<open>undefined\<close>, which is \<open>None\<close>;
  a provider always passes an object. A \<^verbatim>\<open>throw\<close> is the left injection.
\<close>

definition useContext :: "'a \<Rightarrow> 'a list \<Rightarrow> 'a" where
  "useContext dflt providers = (case providers of [] \<Rightarrow> dflt | v # _ \<Rightarrow> v)"

definition usePermissions :: "'c list \<Rightarrow> string + 'c" where
  "usePermissions providers =
     (case useContext None (map Some providers) of
        None \<Rightarrow> Inl ''usePermissions must be used within PermissionsProvider''
      | Some context \<Rightarrow> Inr context)"

section \<open>Fetching role and permissions\<close>

text \<open>
  A service call that resolves gives an object with the fields \<^verbatim>\<open>data\<close> and \<^verbatim>\<open>error\<close>,
  each possibly \<^verbatim>\<open>null\<close>.
\<close>

record 'a result =
  data :: "'a option"
  error :: "string option"

text \<open>
  What a service call does when it is made: it throws at once, or it returns a promise
  that rejects, or one that resolves to a result. \<open>services\<close> says this for the two calls
  of one run of \<^verbatim>\<open>fetchPermissions\<close>.
\<close>

datatype 'a call = Throws | Rejects | Resolves "'a result"

record services =
  rpc_get_user_role :: "string call"
  select_page_permissions :: "PagePermission list call"

text \<open>
  \<^verbatim>\<open>await Promise.all([...])\<close> yields both results when both promises resolve and throws
  otherwise (\<open>None\<close>).
\<close>

definition promise_all :: "services \<Rightarrow> (string result \<times> PagePermission list result) option" where
  "promise_all sv =
     (case (rpc_get_user_role sv, select_page_permissions sv) of
        (Resolves roleResult, Resolves permissionsResult) \<Rightarrow> Some (roleResult, permissionsResult)
      | _ \<Rightarrow> None)"

text \<open>
  What the code does to the outside, in order: the four state setters and the two service
  calls (a call that throws is recorded as made). \<^verbatim>\<open>console.error\<close> is left out.
\<close>

datatype action =
    SetUserRole string
  | SetPermissions "PagePermission list"
  | SetLoading bool
  | SetHasFetched bool
  | Rpc_get_user_role string
  | Select_page_permissions

fun apply_action :: "action \<Rightarrow> state \<Rightarrow> state" where
  "apply_action (SetUserRole v) s = s\<lparr>userRole := v\<rparr>"
| "apply_action (SetPermissions v) s = s\<lparr>permissions := v\<rparr>"
| "apply_action (SetLoading v) s = s\<lparr>loading := v\<rparr>"
| "apply_action (SetHasFetched v) s = s\<lparr>hasFetched := v\<rparr>"
| "apply_action (Rpc_get_user_role _) s = s"
| "apply_action Select_page_permissions s = s"

definition run :: "action list \<Rightarrow> state \<Rightarrow> state" where
  "run as s = fold apply_action as s"

fun is_role_lookup :: "action \<Rightarrow> bool" where
  "is_role_lookup (Rpc_get_user_role _) = True"
| "is_role_lookup _ = False"

definition role_lookups :: "action list \<Rightarrow> nat" where
  "role_lookups as = length (filter is_role_lookup as)"

definition permission_listings :: "action list \<Rightarrow> nat" where
  "permission_listings as = length (filter (\<lambda>a. a = Select_page_permissions) as)"

text \<open>
  An \<^verbatim>\<open>async\<close> function with at most one \<^verbatim>\<open>await\<close>: it returns after some actions
  without suspending, or performs some actions, suspends, and performs the rest when what
  it awaits has settled. \<open>started\<close> is the part that runs when the function is called,
  \<open>complete\<close> the whole run up to the point where its promise resolves.
\<close>

datatype task =
    Return "action list"
  | Await "action list" "action list"

fun started :: "task \<Rightarrow> action list" where
  "started (Return as) = as"
| "started (Await as rest) = as"

fun complete :: "task \<Rightarrow> action list" where
  "complete (Return as) = as"
| "complete (Await as rest) = as @ rest"

fun prepend :: "action list \<Rightarrow> task \<Rightarrow> task" where
  "prepend pre (Return as) = Return (pre @ as)"
| "prepend pre (Await as rest) = Await (pre @ as) rest"

fun append_sync :: "task \<Rightarrow> action list \<Rightarrow> task" where
  "append_sync (Return as) post = Return (as @ post)"
| "append_sync (Await as rest) post = Await (as @ post) rest"

text \<open>
  \<^verbatim>\<open>roleResult.data || 'user'\<close>: \<^verbatim>\<open>null\<close> and the empty string are falsy.
  \<^verbatim>\<open>permissionsResult.data || []\<close>: only \<^verbatim>\<open>null\<close> is falsy, an empty array is kept.
\<close>

definition handle_role :: "string result \<Rightarrow> action" where
  "handle_role roleResult =
     (if error roleResult \<noteq> None then SetUserRole ''user''
      else SetUserRole (case data roleResult of
                          None \<Rightarrow> ''user''
                        | Some d \<Rightarrow> if d = [] then ''user'' else d))"

definition handle_permissions :: "PagePermission list result \<Rightarrow> action" where
  "handle_permissions permissionsResult =
     (if error permissionsResult \<noteq> None then SetPermissions []
      else SetPermissions (case data permissionsResult of None \<Rightarrow> [] | Some d \<Rightarrow> d))"

text \<open>The \<^verbatim>\<open>catch\<close> block followed by the \<^verbatim>\<open>finally\<close> block.\<close>

definition caught :: "action list" where
  "caught = [SetUserRole ''user'', SetPermissions [], SetLoading False]"

text \<open>
  \<^verbatim>\<open>fetchPermissions\<close> is a \<^verbatim>\<open>useCallback\<close> over \<^verbatim>\<open>[user, hasFetched]\<close>: the function of
  one render sees the \<^verbatim>\<open>user\<close> and the \<^verbatim>\<open>hasFetched\<close> of that render, whatever the
  setters have been told since. These two captured values are its first arguments.

  The two calls are made inside the \<^verbatim>\<open>try\<close>, the role lookup first. A call that throws
  ends the \<^verbatim>\<open>try\<close> before anything is awaited, and a throwing role lookup before the
  listing is made. Otherwise the function suspends at the \<^verbatim>\<open>await\<close>. The \<^verbatim>\<open>finally\<close>
  block runs on every path through the \<^verbatim>\<open>try\<close>.
\<close>

definition fetchPermissions :: "User option \<Rightarrow> bool \<Rightarrow> services \<Rightarrow> task" where
  "fetchPermissions usr fetched sv =
     (case usr of
        None \<Rightarrow> Return [SetUserRole ''user'', SetPermissions [], SetLoading False,
                        SetHasFetched False]
      | Some u \<Rightarrow>
          if fetched then Return []
          else if rpc_get_user_role sv = Throws then
            Return ([SetLoading True, Rpc_get_user_role (user_id u)] @ caught)
          else if select_page_permissions sv = Throws then
            Return ([SetLoading True, Rpc_get_user_role (user_id u), Select_page_permissions]
                    @ caught)
          else
            Await [SetLoading True, Rpc_get_user_role (user_id u), Select_page_permissions]
              (case promise_all sv of
                 Some (roleResult, permissionsResult) \<Rightarrow>
                   [handle_role roleResult, handle_permissions permissionsResult,
                    SetHasFetched True, SetLoading False]
               | None \<Rightarrow> caught))"

text \<open>
  \<^verbatim>\<open>refreshPermissions\<close> is a \<^verbatim>\<open>useCallback\<close> over \<^verbatim>\<open>[fetchPermissions]\<close>: it calls the
  \<^verbatim>\<open>fetchPermissions\<close> of its own render, after \<^verbatim>\<open>setHasFetched(false)\<close>.
\<close>

definition refreshPermissions :: "User option \<Rightarrow> bool \<Rightarrow> services \<Rightarrow> task" where
  "refreshPermissions usr fetched sv =
     prepend [SetHasFetched False] (fetchPermissions usr fetched sv)"

section \<open>The effects of the provider\<close>

text \<open>
  The first effect, over \<^verbatim>\<open>[user, authLoading, fetchPermissions]\<close>. It calls
  \<^verbatim>\<open>fetchPermissions()\<close> without awaiting it.
\<close>

definition fetch_effect :: "auth \<Rightarrow> state \<Rightarrow> services \<Rightarrow> task" where
  "fetch_effect a s sv =
     (if authLoading a then Return []
      else if user a \<noteq> None then fetchPermissions (user a) (hasFetched s) sv
      else Return [SetUserRole ''user'', SetPermissions [], SetLoading False,
                   SetHasFetched False])"

text \<open>The second effect, over \<^verbatim>\<open>[user?.id]\<close>.\<close>

definition reset_effect :: "action list" where
  "reset_effect = [SetHasFetched False]"

text \<open>
  An effect runs after the first render and after each render in which one of its
  dependencies differs from the render before. \<open>prev\<close> is the render before (props and
  state), \<open>None\<close> at mount. \<^verbatim>\<open>fetchPermissions\<close> is a new function exactly when \<^verbatim>\<open>user\<close>
  or \<^verbatim>\<open>hasFetched\<close> differs.
\<close>

definition fetch_effect_fires :: "(auth \<times> state) option \<Rightarrow> auth \<Rightarrow> state \<Rightarrow> bool" where
  "fetch_effect_fires prev a s =
     (case prev of
        None \<Rightarrow> True
      | Some (a0, s0) \<Rightarrow>
          user a0 \<noteq> user a \<or> authLoading a0 \<noteq> authLoading a \<or>
          (user a0 \<noteq> user a \<or> hasFetched s0 \<noteq> hasFetched s))"

definition reset_effect_fires :: "(auth \<times> state) option \<Rightarrow> auth \<Rightarrow> bool" where
  "reset_effect_fires prev a =
     (case prev of
        None \<Rightarrow> True
      | Some (a0, s0) \<Rightarrow> map_option user_id (user a0) \<noteq> map_option user_id (user a))"

text \<open>
  The effects of one commit, in the order the component declares them: the fetch effect,
  then the reset effect. A fetch that suspends continues after the commit. \<open>sv\<close> is what
  the services do if the fetch effect calls them in this commit.
\<close>

definition effects :: "(auth \<times> state) option \<Rightarrow> auth \<Rightarrow> state \<Rightarrow> services \<Rightarrow> task" where
  "effects prev a s sv =
     append_sync (if fetch_effect_fires prev a s then fetch_effect a s sv else Return [])
                 (if reset_effect_fires prev a then reset_effect else [])"

text \<open>
  A sequence of renders, each with the props of \<^verbatim>\<open>useAuth\<close> at that time and with what
  the services do at that time: the actions that the effects perform when they run,
  commit after commit, before any suspended fetch continues. The state of a render is the
  state the actions before it have left.
\<close>

fun renders :: "(auth \<times> state) option \<Rightarrow> state \<Rightarrow> (auth \<times> services) list \<Rightarrow> action list" where
  "renders prev s [] = []"
| "renders prev s ((a, sv) # rs) =
     (let acts = started (effects prev a s sv)
      in acts @ renders (Some (a, s)) (run acts s) rs)"

section \<open>Route guards\<close>

text \<open>What a component renders, with the components of \<^verbatim>\<open>App.tsx\<close> expanded.\<close>

datatype element =
    LoadingScreen
  | PageLoader
  | ContentLoader
  | Navigate string bool
  | FixedSidebarLayout element
  | PageAccessGuard element
  | Suspense element element
  | Fragment element
  | Page string

definition ProtectedRoute :: "auth \<Rightarrow> element \<Rightarrow> element" where
  "ProtectedRoute a children =
     (if authLoading a then LoadingScreen
      else if user a = None then Navigate ''/auth'' True
      else FixedSidebarLayout (PageAccessGuard (Suspense ContentLoader children)))"

definition AuthRoute :: "auth \<Rightarrow> element \<Rightarrow> element" where
  "AuthRoute a children =
     (if authLoading a then LoadingScreen
      else if user a \<noteq> None then Navigate ''/'' True
      else Fragment children)"

text \<open>The route table of \<^verbatim>\<open>AppRouter\<close>: each path with the element it renders.\<close>

definition AppRouter :: "auth \<Rightarrow> (string \<times> element) list" where
  "AppRouter a =
     [(''/sticky-header-test'', Suspense PageLoader (Page ''StickyHeaderTest'')),
      (''/auth'', Suspense PageLoader (AuthRoute a (Page ''Auth''))),
      (''/'', Navigate ''/dashboard'' True),
      (''/dashboard'', ProtectedRoute a (Page ''Dashboard'')),
      (''/accounts'', ProtectedRoute a (Page ''Accounts'')),
      (''/contacts'', ProtectedRoute a (Page ''Contacts'')),
      (''/leads'', ProtectedRoute a (Page ''Leads'')),
      (''/meetings'', ProtectedRoute a (Page ''Meetings'')),
      (''/deals'', ProtectedRoute a (Page ''DealsPage'')),
      (''/notifications'', ProtectedRoute a (Page ''Notifications'')),
      (''/tasks'', ProtectedRoute a (Page ''Tasks'')),
      (''/settings'', ProtectedRoute a (Page ''Settings'')),
      (''*'', ProtectedRoute a (Page ''NotFound''))]"

text \<open>The pages that occur in a rendered tree.\<close>

fun pages :: "element \<Rightarrow> string list" where
  "pages (Page n) = [n]"
| "pages (FixedSidebarLayout e) = pages e"
| "pages (PageAccessGuard e) = pages e"
| "pages (Suspense f e) = pages f @ pages e"
| "pages (Fragment e) = pages e"
| "pages _ = []"

section \<open>Auxiliary facts\<close>

lemma run_Nil: "run [] s = s"
  by (simp add: run_def)

lemma run_Cons: "run (x # xs) s = run xs (apply_action x s)"
  by (simp add: run_def)

lemma find_first_match:
  "\<forall>q \<in> set pre. \<not> P q \<Longrightarrow> P p \<Longrightarrow> List.find P (pre @ p # post) = Some p"
  by (induction pre) simp_all

lemma apply_handle_role:
  "apply_action (handle_role r) s =
     s\<lparr>userRole := (if error r \<noteq> None then ''user''
                     else case data r of None \<Rightarrow> ''user'' | Some d \<Rightarrow> if d = [] then ''user'' else d)\<rparr>"
  by (simp add: handle_role_def)

lemma apply_handle_permissions:
  "apply_action (handle_permissions p) s =
     s\<lparr>permissions := (if error p \<noteq> None then [] else case data p of None \<Rightarrow> [] | Some d \<Rightarrow> d)\<rparr>"
  by (simp add: handle_permissions_def)

text \<open>The state after a fetch in which both calls resolved.\<close>

lemma fetch_resolved:
  assumes "rpc_get_user_role sv = Resolves r" and "select_page_permissions sv = Resolves p"
  shows "run (complete (fetchPermissions (Some u) False sv)) s =
     s\<lparr>userRole := (if error r \<noteq> None then ''user''
                     else case data r of None \<Rightarrow> ''user'' | Some d \<Rightarrow> if d = [] then ''user'' else d),
       permissions := (if error p \<noteq> None then [] else case data p of None \<Rightarrow> [] | Some d \<Rightarrow> d),
       loading := False, hasFetched := True\<rparr>"
  using assms
  by (simp add: fetchPermissions_def promise_all_def run_Cons run_Nil apply_handle_role
        apply_handle_permissions del: apply_action.simps(1,2))

text \<open>The state after a fetch in which a call threw or its promise rejected.\<close>

lemma run_caught: "run caught s = s\<lparr>userRole := ''user'', permissions := [], loading := False\<rparr>"
  by (simp add: caught_def run_Cons run_Nil)

lemma fetch_caught:
  assumes "(\<forall>r. rpc_get_user_role sv \<noteq> Resolves r) \<or> (\<forall>p. select_page_permissions sv \<noteq> Resolves p)"
  shows "run (complete (fetchPermissions (Some u) False sv)) s =
     s\<lparr>userRole := ''user'', permissions := [], loading := False\<rparr>"
proof -
  have none: "promise_all sv = None"
    using assms
    by (cases "rpc_get_user_role sv"; cases "select_page_permissions sv")
       (simp_all add: promise_all_def)
  have pre: "run (SetLoading True # Rpc_get_user_role (user_id u) # acts) s =
      run acts (s\<lparr>loading := True\<rparr>)" for acts
    by (simp add: run_Cons)
  show ?thesis
    by (simp add: fetchPermissions_def none pre run_Cons run_caught)
qed



section \<open>The access decision\<close>

text \<open>
  Claim C1. For every role and every permission list, \<open>hasPageAccess\<close> is \<open>True\<close> when no
  record has the normalized route; when a record has it, the first such record decides:
  by its \<open>admin_access\<close> for the role \<open>admin\<close>, by its \<open>manager_access\<close> for \<open>manager\<close>, by
  its \<open>user_access\<close> for \<open>user\<close> and for every other role.
\<close>

theorem hasPageAccess_decision:
  "((\<forall>q \<in> set (permissions s). route q \<noteq> normalizedRoute r) \<longrightarrow> hasPageAccess s r) \<and>
   (permissions s = pre @ p # post \<and> (\<forall>q \<in> set pre. route q \<noteq> normalizedRoute r) \<and>
    route p = normalizedRoute r \<longrightarrow>
      hasPageAccess s r =
        (if userRole s = ''admin'' then admin_access p
         else if userRole s = ''manager'' then manager_access p
         else user_access p))"
proof (intro conjI impI)
  assume "\<forall>q \<in> set (permissions s). route q \<noteq> normalizedRoute r"
  then have "List.find (\<lambda>q. route q = normalizedRoute r) (permissions s) = None"
    by (simp add: find_None_iff)
  then show "hasPageAccess s r"
    by (simp add: hasPageAccess_def)
next
  assume h: "permissions s = pre @ p # post \<and> (\<forall>q \<in> set pre. route q \<noteq> normalizedRoute r) \<and>
    route p = normalizedRoute r"
  have "List.find (\<lambda>q. route q = normalizedRoute r) (pre @ p # post) = Some p"
    using h by (intro find_first_match) simp_all
  then show "hasPageAccess s r =
        (if userRole s = ''admin'' then admin_access p
         else if userRole s = ''manager'' then manager_access p
         else user_access p)"
    using h by (simp add: hasPageAccess_def)
qed

text \<open>
  Witness for C1: a manager, one record for \<open>/settings\<close> that only admits admins. The
  route \<open>/leads\<close> has no record and is allowed; \<open>/settings/\<close> is decided by the record's
  \<open>manager_access\<close>.
\<close>

theorem hasPageAccess_decision_witness:
  "hasPageAccess
     \<lparr>userRole = ''manager'',
      permissions = [\<lparr>id_field = ''1'', page_name = ''Settings'', route = ''/settings'',
                      admin_access = True, manager_access = False, user_access = False\<rparr>],
      loading = False, hasFetched = True\<rparr> ''/leads'' \<and>
   \<not> hasPageAccess
     \<lparr>userRole = ''manager'',
      permissions = [\<lparr>id_field = ''1'', page_name = ''Settings'', route = ''/settings'',
                      admin_access = True, manager_access = False, user_access = False\<rparr>],
      loading = False, hasFetched = True\<rparr> ''/settings/''"
  using
    hasPageAccess_decision [where r = "''/leads''" and pre = "[]" and post = "[]"
      and p = "\<lparr>id_field = ''1'', page_name = ''Settings'', route = ''/settings'',
                 admin_access = True, manager_access = False, user_access = False\<rparr>"
      and s = "\<lparr>userRole = ''manager'',
                 permissions = [\<lparr>id_field = ''1'', page_name = ''Settings'', route = ''/settings'',
                      admin_access = True, manager_access = False, user_access = False\<rparr>],
                 loading = False, hasFetched = True\<rparr>"]
    hasPageAccess_decision [where r = "''/settings/''" and pre = "[]" and post = "[]"
      and p = "\<lparr>id_field = ''1'', page_name = ''Settings'', route = ''/settings'',
                 admin_access = True, manager_access = False, user_access = False\<rparr>"
      and s = "\<lparr>userRole = ''manager'',
                 permissions = [\<lparr>id_field = ''1'', page_name = ''Settings'', route = ''/settings'',
                      admin_access = True, manager_access = False, user_access = False\<rparr>],
                 loading = False, hasFetched = True\<rparr>"]
  by (simp add: normalizedRoute_def replace_trailing_slash_def)

text \<open>
  Claim C9. For every role and every permission list, \<open>hasPageAccess\<close> looks the routes
  \<open>/\<close>, \<open>/dashboard\<close> and \<open>/dashboard/\<close> up under \<open>/dashboard\<close>: for each of them the first
  record with the route \<open>/dashboard\<close> decides by the role, and without such a record the
  answer is \<open>True\<close>; so the three answers are the same. In general the route is normalized
  before the lookup: \<open>/\<close> becomes \<open>/dashboard\<close>, a route \<open>t/\<close> with \<open>t\<close> not empty is looked
  up under \<open>t\<close> (one trailing slash is removed), and any other route under itself.
\<close>

theorem hasPageAccess_normalization:
  "(r \<in> {''/'', ''/dashboard'', ''/dashboard/''} \<longrightarrow>
      hasPageAccess s r =
        (case List.find (\<lambda>p. route p = ''/dashboard'') (permissions s) of
           None \<Rightarrow> True
         | Some p \<Rightarrow>
             (if userRole s = ''admin'' then admin_access p
              else if userRole s = ''manager'' then manager_access p
              else user_access p))) \<and>
   hasPageAccess s ''/'' = hasPageAccess s ''/dashboard'' \<and>
   hasPageAccess s ''/dashboard'' = hasPageAccess s ''/dashboard/'' \<and>
   normalizedRoute ''/'' = ''/dashboard'' \<and>
   (t \<noteq> [] \<longrightarrow>
      normalizedRoute (t @ ''/'') = t \<and>
      hasPageAccess s (t @ ''/'') =
        (case List.find (\<lambda>p. route p = t) (permissions s) of
           None \<Rightarrow> True
         | Some p \<Rightarrow>
             (if userRole s = ''admin'' then admin_access p
              else if userRole s = ''manager'' then manager_access p
              else user_access p))) \<and>
   (t \<noteq> ''/'' \<and> (t = [] \<or> last t \<noteq> CHR ''/'') \<longrightarrow>
      normalizedRoute t = t \<and>
      hasPageAccess s t =
        (case List.find (\<lambda>p. route p = t) (permissions s) of
           None \<Rightarrow> True
         | Some p \<Rightarrow>
             (if userRole s = ''admin'' then admin_access p
              else if userRole s = ''manager'' then manager_access p
              else user_access p)))"
proof -
  have three: "normalizedRoute ''/'' = ''/dashboard''"
    "normalizedRoute ''/dashboard'' = ''/dashboard''"
    "normalizedRoute ''/dashboard/'' = ''/dashboard''"
    by (simp_all add: normalizedRoute_def replace_trailing_slash_def)
  have strip: "normalizedRoute (t @ ''/'') = t" if "t \<noteq> []"
    using that by (simp add: normalizedRoute_def replace_trailing_slash_def)
  have keep: "normalizedRoute t = t" if "t \<noteq> ''/''" and "t = [] \<or> last t \<noteq> CHR ''/''"
    using that by (auto simp add: normalizedRoute_def replace_trailing_slash_def)
  show ?thesis
    by (auto simp add: hasPageAccess_def three strip keep)
qed

text \<open>
  Witness for C9: a user and two records, one for \<open>/dashboard\<close> that excludes users and
  one for \<open>/leads\<close> that admits them. The three dashboard routes are all denied, and
  \<open>/leads/\<close> is allowed by the record for \<open>/leads\<close>.
\<close>

theorem hasPageAccess_normalization_witness:
  "\<not> hasPageAccess
       \<lparr>userRole = ''user'',
        permissions = [\<lparr>id_field = ''1'', page_name = ''Dashboard'', route = ''/dashboard'',
                        admin_access = True, manager_access = True, user_access = False\<rparr>,
                       \<lparr>id_field = ''2'', page_name = ''Leads'', route = ''/leads'',
                        admin_access = True, manager_access = True, user_access = True\<rparr>],
        loading = False, hasFetched = True\<rparr> ''/'' \<and>
   \<not> hasPageAccess
       \<lparr>userRole = ''user'',
        permissions = [\<lparr>id_field = ''1'', page_name = ''Dashboard'', route = ''/dashboard'',
                        admin_access = True, manager_access = True, user_access = False\<rparr>,
                       \<lparr>id_field = ''2'', page_name = ''Leads'', route = ''/leads'',
                        admin_access = True, manager_access = True, user_access = True\<rparr>],
        loading = False, hasFetched = True\<rparr> ''/dashboard/'' \<and>
   hasPageAccess
       \<lparr>userRole = ''user'',
        permissions = [\<lparr>id_field = ''1'', page_name = ''Dashboard'', route = ''/dashboard'',
                        admin_access = True, manager_access = True, user_access = False\<rparr>,
                       \<lparr>id_field = ''2'', page_name = ''Leads'', route = ''/leads'',
                        admin_access = True, manager_access = True, user_access = True\<rparr>],
        loading = False, hasFetched = True\<rparr> (''/leads'' @ ''/'') \<and>
   hasPageAccess
       \<lparr>userRole = ''user'',
        permissions = [\<lparr>id_field = ''1'', page_name = ''Dashboard'', route = ''/dashboard'',
                        admin_access = True, manager_access = True, user_access = False\<rparr>,
                       \<lparr>id_field = ''2'', page_name = ''Leads'', route = ''/leads'',
                        admin_access = True, manager_access = True, user_access = True\<rparr>],
        loading = False, hasFetched = True\<rparr> ''/leads''"
proof -
  let ?s = "\<lparr>userRole = ''user'',
        permissions = [\<lparr>id_field = ''1'', page_name = ''Dashboard'', route = ''/dashboard'',
                        admin_access = True, manager_access = True, user_access = False\<rparr>,
                       \<lparr>id_field = ''2'', page_name = ''Leads'', route = ''/leads'',
                        admin_access = True, manager_access = True, user_access = True\<rparr>],
        loading = False, hasFetched = True\<rparr>"
  have root: "''/'' \<in> {''/'', ''/dashboard'', ''/dashboard/''}"
    and slash: "''/dashboard/'' \<in> {''/'', ''/dashboard'', ''/dashboard/''}"
    by simp_all
  have leads: "''/leads'' \<noteq> []"
    and plain: "''/leads'' \<noteq> ''/'' \<and> (''/leads'' = [] \<or> last ''/leads'' \<noteq> CHR ''/'')"
    by simp_all
  note n = hasPageAccess_normalization [where s = ?s]
  note a = n [where r = "''/''", THEN conjunct1, THEN mp, OF root]
  note b = n [where r = "''/dashboard/''", THEN conjunct1, THEN mp, OF slash]
  note c = n [where t = "''/leads''", THEN conjunct2, THEN conjunct2, THEN conjunct2,
      THEN conjunct2, THEN conjunct1, THEN mp, OF leads, THEN conjunct2]
  note d = n [where t = "''/leads''", THEN conjunct2, THEN conjunct2, THEN conjunct2,
      THEN conjunct2, THEN conjunct2, THEN mp, OF plain, THEN conjunct2]
  show ?thesis
    unfolding a b c d by simp
qed

section \<open>The context hook\<close>

text \<open>
  Claim C10. With no provider above the caller, \<open>usePermissions\<close> throws the error
  \<open>usePermissions must be used within PermissionsProvider\<close>; below a provider it returns
  the value of the nearest one and does not throw.
\<close>

theorem usePermissions_provider:
  "usePermissions [] = Inl ''usePermissions must be used within PermissionsProvider'' \<and>
   usePermissions (v # vs) = Inr v"
  by (simp add: usePermissions_def useContext_def)

section \<open>The authenticated guard\<close>

text \<open>
  Claim C2. When identity resolution has completed and there is no user, the guard
  renders a replace-redirect to \<open>/auth\<close>, whatever it wraps, and no page occurs in what it
  renders; this holds for the element of every route of the table other than the three
  that are not wrapped in the guard.
\<close>

theorem ProtectedRoute_unauthenticated:
  "\<not> authLoading a \<and> user a = None \<longrightarrow>
     ProtectedRoute a children = Navigate ''/auth'' True \<and>
     pages (ProtectedRoute a children) = [] \<and>
     (\<forall>(path, e) \<in> set (AppRouter a).
        path \<notin> {''/sticky-header-test'', ''/auth'', ''/''} \<longrightarrow>
        e = Navigate ''/auth'' True \<and> pages e = [])"
  by (simp add: ProtectedRoute_def AppRouter_def)

text \<open>Witness for C2: an unauthenticated visit of \<open>/settings\<close>.\<close>

theorem ProtectedRoute_unauthenticated_witness:
  "\<not> authLoading \<lparr>user = None, authLoading = False\<rparr> \<and>
   user \<lparr>user = None, authLoading = False\<rparr> = None \<and>
   ProtectedRoute \<lparr>user = None, authLoading = False\<rparr> (Page ''Settings'') =
     Navigate ''/auth'' True \<and>
   map_of (AppRouter \<lparr>user = None, authLoading = False\<rparr>) ''/settings'' =
     Some (Navigate ''/auth'' True)"
  using ProtectedRoute_unauthenticated
    [where a = "\<lparr>user = None, authLoading = False\<rparr>" and children = "Page ''Settings''"]
  by (simp add: AppRouter_def)

section \<open>The fetch\<close>




text \<open>
  Claim C4, as the code has it. After a fetch attempt for a user that is not null,
  \<open>loading\<close> is \<open>False\<close> whatever the outcome. When both calls resolved, with or without an
  error in either result, \<open>hasFetched\<close> is \<open>True\<close>. When an exception escaped, because a
  call threw or its promise rejected, the role is \<open>user\<close>, the permissions are empty and
  \<open>hasFetched\<close> is what it was before: the \<^verbatim>\<open>catch\<close> block does not set it.
\<close>

theorem fetch_attempt_outcome:
  "loading (run (complete (fetchPermissions (Some u) False sv)) s) = False \<and>
   (rpc_get_user_role sv = Resolves r \<and> select_page_permissions sv = Resolves p \<longrightarrow>
      hasFetched (run (complete (fetchPermissions (Some u) False sv)) s)) \<and>
   ((\<forall>r. rpc_get_user_role sv \<noteq> Resolves r) \<or> (\<forall>p. select_page_permissions sv \<noteq> Resolves p) \<longrightarrow>
      userRole (run (complete (fetchPermissions (Some u) False sv)) s) = ''user'' \<and>
      permissions (run (complete (fetchPermissions (Some u) False sv)) s) = [] \<and>
      hasFetched (run (complete (fetchPermissions (Some u) False sv)) s) = hasFetched s)"
proof -
  consider (both) r' p' where "rpc_get_user_role sv = Resolves r'"
      and "select_page_permissions sv = Resolves p'"
    | (escaped) "(\<forall>r. rpc_get_user_role sv \<noteq> Resolves r) \<or>
        (\<forall>p. select_page_permissions sv \<noteq> Resolves p)"
    by (cases "rpc_get_user_role sv"; cases "select_page_permissions sv") auto
  then show ?thesis
  proof cases
    case both
    then show ?thesis by (simp add: fetch_resolved)
  next
    case escaped
    then show ?thesis by (auto simp add: fetch_caught)
  qed
qed

text \<open>
  Witness for C4: a fetch in which both promises reject, started from the state of a
  manager, and a fetch in which the role lookup reports an error.
\<close>

theorem fetch_attempt_outcome_witness:
  "userRole (run (complete (fetchPermissions (Some \<lparr>ref = 0, user_id = ''u1''\<rparr>) False
        \<lparr>rpc_get_user_role = Rejects, select_page_permissions = Rejects\<rparr>))
      \<lparr>userRole = ''manager'', permissions = [], loading = True, hasFetched = False\<rparr>) = ''user'' \<and>
   \<not> loading (run (complete (fetchPermissions (Some \<lparr>ref = 0, user_id = ''u1''\<rparr>) False
        \<lparr>rpc_get_user_role = Rejects, select_page_permissions = Rejects\<rparr>))
      \<lparr>userRole = ''manager'', permissions = [], loading = True, hasFetched = False\<rparr>) \<and>
   hasFetched (run (complete (fetchPermissions (Some \<lparr>ref = 0, user_id = ''u1''\<rparr>) False
        \<lparr>rpc_get_user_role = Resolves \<lparr>data = None, error = Some ''timeout''\<rparr>,
         select_page_permissions = Resolves \<lparr>data = Some [], error = None\<rparr>\<rparr>))
      \<lparr>userRole = ''manager'', permissions = [], loading = True, hasFetched = False\<rparr>)"
  using
    fetch_attempt_outcome
      [where sv = "\<lparr>rpc_get_user_role = Rejects, select_page_permissions = Rejects\<rparr>"
         and u = "\<lparr>ref = 0, user_id = ''u1''\<rparr>"
         and s = "\<lparr>userRole = ''manager'', permissions = [], loading = True, hasFetched = False\<rparr>"]
    fetch_attempt_outcome
      [where sv = "\<lparr>rpc_get_user_role = Resolves \<lparr>data = None, error = Some ''timeout''\<rparr>,
                    select_page_permissions = Resolves \<lparr>data = Some [], error = None\<rparr>\<rparr>"
         and r = "\<lparr>data = None, error = Some ''timeout''\<rparr>"
         and p = "\<lparr>data = Some [], error = None\<rparr>"
         and u = "\<lparr>ref = 0, user_id = ''u1''\<rparr>"
         and s = "\<lparr>userRole = ''manager'', permissions = [], loading = True, hasFetched = False\<rparr>"]
  by simp

text \<open>
  Counterexample for C4 as stated: in the first fetch for \<open>u1\<close> both promises reject, and
  \<open>hasFetched\<close> is not set afterwards.
\<close>

theorem fetch_rejected_not_fetched:
  "\<not> hasFetched (run (complete
        (fetchPermissions (Some \<lparr>ref = 0, user_id = ''u1''\<rparr>) False
           \<lparr>rpc_get_user_role = Rejects, select_page_permissions = Rejects\<rparr>))
        \<lparr>userRole = ''user'', permissions = [], loading = True, hasFetched = False\<rparr>)"
  by (simp add: fetch_caught)

text \<open>
  Claim C6, as the code has it. When both calls resolve, each result is handled by
  itself. The role after the fetch does not depend on the permission result, and the
  permissions do not depend on the role result. A role result with an error gives the
  role \<open>user\<close>; one without gives the returned role, or \<open>user\<close> when it is absent or
  empty. A permission result with an error gives the empty list; one without gives the
  returned list, or the empty list when it is absent. When a call throws or its promise
  rejects, the role is \<open>user\<close> and the permissions are empty, whatever the other call
  gave.
\<close>

theorem fetch_results_independent:
  "userRole (run (complete (fetchPermissions (Some u) False
       \<lparr>rpc_get_user_role = Resolves r, select_page_permissions = Resolves p\<rparr>)) s) =
     userRole (run (complete (fetchPermissions (Some u) False
       \<lparr>rpc_get_user_role = Resolves r, select_page_permissions = Resolves p'\<rparr>)) s) \<and>
   permissions (run (complete (fetchPermissions (Some u) False
       \<lparr>rpc_get_user_role = Resolves r, select_page_permissions = Resolves p\<rparr>)) s) =
     permissions (run (complete (fetchPermissions (Some u) False
       \<lparr>rpc_get_user_role = Resolves r', select_page_permissions = Resolves p\<rparr>)) s) \<and>
   (error r \<noteq> None \<longrightarrow>
      userRole (run (complete (fetchPermissions (Some u) False
        \<lparr>rpc_get_user_role = Resolves r, select_page_permissions = Resolves p\<rparr>)) s) = ''user'') \<and>
   (error r = None \<longrightarrow>
      userRole (run (complete (fetchPermissions (Some u) False
        \<lparr>rpc_get_user_role = Resolves r, select_page_permissions = Resolves p\<rparr>)) s) =
        (case data r of None \<Rightarrow> ''user'' | Some d \<Rightarrow> if d = [] then ''user'' else d)) \<and>
   (error p \<noteq> None \<longrightarrow>
      permissions (run (complete (fetchPermissions (Some u) False
        \<lparr>rpc_get_user_role = Resolves r, select_page_permissions = Resolves p\<rparr>)) s) = []) \<and>
   (error p = None \<longrightarrow>
      permissions (run (complete (fetchPermissions (Some u) False
        \<lparr>rpc_get_user_role = Resolves r, select_page_permissions = Resolves p\<rparr>)) s) =
        (case data p of None \<Rightarrow> [] | Some d \<Rightarrow> d)) \<and>
   ((\<forall>x. rpc_get_user_role sv \<noteq> Resolves x) \<or> (\<forall>y. select_page_permissions sv \<noteq> Resolves y) \<longrightarrow>
      userRole (run (complete (fetchPermissions (Some u) False sv)) s) = ''user'' \<and>
      permissions (run (complete (fetchPermissions (Some u) False sv)) s) = [])"
proof -
  have both: "run (complete (fetchPermissions (Some u) False
       \<lparr>rpc_get_user_role = Resolves x, select_page_permissions = Resolves y\<rparr>)) s =
     s\<lparr>userRole := (if error x \<noteq> None then ''user''
                     else case data x of None \<Rightarrow> ''user'' | Some d \<Rightarrow> if d = [] then ''user'' else d),
       permissions := (if error y \<noteq> None then [] else case data y of None \<Rightarrow> [] | Some d \<Rightarrow> d),
       loading := False, hasFetched := True\<rparr>" for x y
    by (rule fetch_resolved) simp_all
  have escaped: "(\<forall>x. rpc_get_user_role sv \<noteq> Resolves x) \<or>
      (\<forall>y. select_page_permissions sv \<noteq> Resolves y) \<longrightarrow>
      userRole (run (complete (fetchPermissions (Some u) False sv)) s) = ''user'' \<and>
      permissions (run (complete (fetchPermissions (Some u) False sv)) s) = []"
    by (auto simp add: fetch_caught)
  show ?thesis
    using escaped by (simp add: both)
qed

text \<open>
  Witnesses for C6: the role result carries an error and the listing succeeds, so the
  role is \<open>user\<close> and the list is the returned one; the role lookup succeeds and the
  listing's promise rejects, so the role is \<open>user\<close> and the list is empty; the role
  lookup succeeds and the listing's result carries an error, so the role is the returned
  one and the list is empty.
\<close>

theorem fetch_results_independent_witness:
  "error \<lparr>data = None :: string option, error = Some ''timeout''\<rparr> \<noteq> None \<and>
   error \<lparr>data = Some [\<lparr>id_field = ''1'', page_name = ''Settings'', route = ''/settings'',
                         admin_access = True, manager_access = False, user_access = False\<rparr>],
          error = None\<rparr> = None \<and>
   userRole (run (complete (fetchPermissions (Some \<lparr>ref = 0, user_id = ''u1''\<rparr>) False
       \<lparr>rpc_get_user_role = Resolves \<lparr>data = None, error = Some ''timeout''\<rparr>,
        select_page_permissions = Resolves
          \<lparr>data = Some [\<lparr>id_field = ''1'', page_name = ''Settings'', route = ''/settings'',
                          admin_access = True, manager_access = False, user_access = False\<rparr>],
           error = None\<rparr>\<rparr>)) initial) = ''user'' \<and>
   permissions (run (complete (fetchPermissions (Some \<lparr>ref = 0, user_id = ''u1''\<rparr>) False
       \<lparr>rpc_get_user_role = Resolves \<lparr>data = None, error = Some ''timeout''\<rparr>,
        select_page_permissions = Resolves
          \<lparr>data = Some [\<lparr>id_field = ''1'', page_name = ''Settings'', route = ''/settings'',
                          admin_access = True, manager_access = False, user_access = False\<rparr>],
           error = None\<rparr>\<rparr>)) initial) =
     [\<lparr>id_field = ''1'', page_name = ''Settings'', route = ''/settings'',
       admin_access = True, manager_access = False, user_access = False\<rparr>] \<and>
   userRole (run (complete (fetchPermissions (Some \<lparr>ref = 0, user_id = ''u1''\<rparr>) False
       \<lparr>rpc_get_user_role = Resolves \<lparr>data = Some ''admin'', error = None\<rparr>,
        select_page_permissions = Rejects\<rparr>)) initial) = ''user'' \<and>
   permissions (run (complete (fetchPermissions (Some \<lparr>ref = 0, user_id = ''u1''\<rparr>) False
       \<lparr>rpc_get_user_role = Resolves \<lparr>data = Some ''admin'', error = None\<rparr>,
        select_page_permissions = Rejects\<rparr>)) initial) = [] \<and>
   userRole (run (complete (fetchPermissions (Some \<lparr>ref = 0, user_id = ''u1''\<rparr>) False
       \<lparr>rpc_get_user_role = Resolves \<lparr>data = Some ''admin'', error = None\<rparr>,
        select_page_permissions = Resolves \<lparr>data = None, error = Some ''denied''\<rparr>\<rparr>)) initial) =
     ''admin'' \<and>
   permissions (run (complete (fetchPermissions (Some \<lparr>ref = 0, user_id = ''u1''\<rparr>) False
       \<lparr>rpc_get_user_role = Resolves \<lparr>data = Some ''admin'', error = None\<rparr>,
        select_page_permissions = Resolves \<lparr>data = None, error = Some ''denied''\<rparr>\<rparr>)) initial) = []"
  using
    fetch_results_independent
      [where r = "\<lparr>data = Some ''admin'', error = None\<rparr>"
         and p = "\<lparr>data = None, error = Some ''denied''\<rparr>"
         and u = "\<lparr>ref = 0, user_id = ''u1''\<rparr>" and s = initial]
    fetch_results_independent
      [where r = "\<lparr>data = None, error = Some ''timeout''\<rparr>"
         and p = "\<lparr>data = Some [\<lparr>id_field = ''1'', page_name = ''Settings'', route = ''/settings'',
                                  admin_access = True, manager_access = False, user_access = False\<rparr>],
                   error = None\<rparr>"
         and sv = "\<lparr>rpc_get_user_role = Resolves \<lparr>data = Some ''admin'', error = None\<rparr>,
                    select_page_permissions = Rejects\<rparr>"
         and u = "\<lparr>ref = 0, user_id = ''u1''\<rparr>" and s = initial]
  by simp

text \<open>
  Counterexample for C6 as stated: the permission listing resolves with one record and
  no error, and the promise of the role lookup rejects. The \<^verbatim>\<open>await\<close> throws, the
  \<^verbatim>\<open>catch\<close> block runs, and the returned list is dropped.
\<close>

theorem role_rejection_discards_permissions:
  "permissions (run (complete (fetchPermissions (Some \<lparr>ref = 0, user_id = ''u1''\<rparr>) False
       \<lparr>rpc_get_user_role = Rejects,
        select_page_permissions = Resolves
          \<lparr>data = Some [\<lparr>id_field = ''1'', page_name = ''Settings'', route = ''/settings'',
                          admin_access = True, manager_access = False, user_access = False\<rparr>],
           error = None\<rparr>\<rparr>))
      \<lparr>userRole = ''user'', permissions = [], loading = True, hasFetched = False\<rparr>) = []"
  by (simp add: fetch_caught)

text \<open>
  Claim C7, at the input where the code departs from it: \<open>hasFetched\<close> is set in the
  render whose \<open>refreshPermissions\<close> is called. The \<open>fetchPermissions\<close> it awaits is the one
  of that render and still sees \<open>hasFetched\<close> set, so the call returns after
  \<^verbatim>\<open>setHasFetched(false)\<close> alone: no role lookup, no permission listing, and the promise
  resolves with role and permissions as they were, whatever the services would do.
\<close>

theorem refreshPermissions_stale_closure:
  "refreshPermissions (Some \<lparr>ref = 0, user_id = ''u1''\<rparr>) True sv = Return [SetHasFetched False] \<and>
   role_lookups (complete (refreshPermissions (Some \<lparr>ref = 0, user_id = ''u1''\<rparr>) True sv)) = 0 \<and>
   permission_listings
     (complete (refreshPermissions (Some \<lparr>ref = 0, user_id = ''u1''\<rparr>) True sv)) = 0"
  by (simp add: refreshPermissions_def fetchPermissions_def role_lookups_def
        permission_listings_def)

text \<open>
  What follows such a call: the render after it has \<open>hasFetched\<close> unset, so its fetch
  effect fires and, unless \<open>authLoading\<close> is set, starts the fetch. When \<open>hasFetched\<close> was
  unset in the render of the call, \<open>refreshPermissions\<close> fetches by itself.
\<close>

lemma refresh_then_fetch_effect:
  "hasFetched s \<Longrightarrow> user a = Some u \<Longrightarrow>
   started (effects (Some (a, s)) a
      (run (started (refreshPermissions (user a) (hasFetched s) sv)) s) sv') =
     (if authLoading a then [] else started (fetchPermissions (Some u) False sv'))"
  by (simp add: refreshPermissions_def fetchPermissions_def effects_def fetch_effect_def
        fetch_effect_fires_def reset_effect_fires_def run_Cons run_Nil)

lemma refreshPermissions_not_fetched:
  "started (refreshPermissions (Some u) False sv) =
     SetHasFetched False # started (fetchPermissions (Some u) False sv)"
  by (simp add: refreshPermissions_def fetchPermissions_def)

section \<open>The effects on a change of identity\<close>

text \<open>
  Claim C8, as the code has it. \<open>fetchPermissions\<close> called with a null user sets the role
  to \<open>user\<close>, the permissions to the empty list, \<open>loading\<close> and \<open>hasFetched\<close> to \<open>False\<close>, and
  calls no service. The effects do the same in the commit of a render with a null user
  and \<open>authLoading\<close> unset, when the render before had a user or had \<open>authLoading\<close> set;
  nothing is left pending there. When the user becomes null while \<open>authLoading\<close> is set,
  the only action of the commit is the reset of \<open>hasFetched\<close>.
\<close>

theorem identity_null_reset:
  "fetchPermissions None f sv =
     Return [SetUserRole ''user'', SetPermissions [], SetLoading False, SetHasFetched False] \<and>
   run (complete (fetchPermissions None f sv)) s =
     \<lparr>userRole = ''user'', permissions = [], loading = False, hasFetched = False\<rparr> \<and>
   role_lookups (complete (fetchPermissions None f sv)) = 0 \<and>
   permission_listings (complete (fetchPermissions None f sv)) = 0 \<and>
   (user a = None \<and> \<not> authLoading a \<and> (user a0 \<noteq> None \<or> authLoading a0) \<longrightarrow>
      run (started (effects (Some (a0, s0)) a s sv)) s =
        \<lparr>userRole = ''user'', permissions = [], loading = False, hasFetched = False\<rparr> \<and>
      role_lookups (started (effects (Some (a0, s0)) a s sv)) = 0 \<and>
      permission_listings (started (effects (Some (a0, s0)) a s sv)) = 0 \<and>
      complete (effects (Some (a0, s0)) a s sv) = started (effects (Some (a0, s0)) a s sv)) \<and>
   (user a = None \<and> authLoading a \<and> user a0 \<noteq> None \<longrightarrow>
      effects (Some (a0, s0)) a s sv = Return [SetHasFetched False])"
  by (auto simp add: fetchPermissions_def effects_def fetch_effect_def fetch_effect_fires_def
        reset_effect_fires_def reset_effect_def run_Cons run_Nil role_lookups_def
        permission_listings_def)

text \<open>
  Witness for C8: the admin \<open>u1\<close> signs out, once while \<open>authLoading\<close> is unset and once
  while it is set.
\<close>

theorem identity_null_reset_witness:
  "user \<lparr>user = None, authLoading = False\<rparr> = None \<and>
   user \<lparr>user = Some \<lparr>ref = 0, user_id = ''u1''\<rparr>, authLoading = False\<rparr> \<noteq> None \<and>
   run (started (effects
      (Some (\<lparr>user = Some \<lparr>ref = 0, user_id = ''u1''\<rparr>, authLoading = False\<rparr>,
             \<lparr>userRole = ''admin'', permissions = [], loading = False, hasFetched = True\<rparr>))
      \<lparr>user = None, authLoading = False\<rparr>
      \<lparr>userRole = ''admin'', permissions = [], loading = False, hasFetched = True\<rparr>
      \<lparr>rpc_get_user_role = Rejects, select_page_permissions = Rejects\<rparr>))
      \<lparr>userRole = ''admin'', permissions = [], loading = False, hasFetched = True\<rparr> =
     \<lparr>userRole = ''user'', permissions = [], loading = False, hasFetched = False\<rparr> \<and>
   effects
      (Some (\<lparr>user = Some \<lparr>ref = 0, user_id = ''u1''\<rparr>, authLoading = False\<rparr>,
             \<lparr>userRole = ''admin'', permissions = [], loading = False, hasFetched = True\<rparr>))
      \<lparr>user = None, authLoading = True\<rparr>
      \<lparr>userRole = ''admin'', permissions = [], loading = False, hasFetched = True\<rparr>
      \<lparr>rpc_get_user_role = Rejects, select_page_permissions = Rejects\<rparr> =
     Return [SetHasFetched False]"
  using identity_null_reset
    [where a = "\<lparr>user = None, authLoading = True\<rparr>"
       and ?a0.0 = "\<lparr>user = Some \<lparr>ref = 0, user_id = ''u1''\<rparr>, authLoading = False\<rparr>"
       and ?s0.0 = "\<lparr>userRole = ''admin'', permissions = [], loading = False, hasFetched = True\<rparr>"
       and s = "\<lparr>userRole = ''admin'', permissions = [], loading = False, hasFetched = True\<rparr>"
       and sv = "\<lparr>rpc_get_user_role = Rejects, select_page_permissions = Rejects\<rparr>"]
    identity_null_reset
    [where a = "\<lparr>user = None, authLoading = False\<rparr>"
       and ?a0.0 = "\<lparr>user = Some \<lparr>ref = 0, user_id = ''u1''\<rparr>, authLoading = False\<rparr>"
       and ?s0.0 = "\<lparr>userRole = ''admin'', permissions = [], loading = False, hasFetched = True\<rparr>"
       and s = "\<lparr>userRole = ''admin'', permissions = [], loading = False, hasFetched = True\<rparr>"
       and sv = "\<lparr>rpc_get_user_role = Rejects, select_page_permissions = Rejects\<rparr>"]
  by simp

text \<open>
  Counterexample for C8 as stated: the admin \<open>u1\<close> becomes null while \<open>authLoading\<close> is
  set. The fetch effect returns at its first line, only the reset effect runs, and the
  role is still \<open>admin\<close>.
\<close>

theorem identity_null_while_auth_loading:
  "userRole (run (started (effects
      (Some (\<lparr>user = Some \<lparr>ref = 0, user_id = ''u1''\<rparr>, authLoading = False\<rparr>,
             \<lparr>userRole = ''admin'', permissions = [], loading = False, hasFetched = True\<rparr>))
      \<lparr>user = None, authLoading = True\<rparr>
      \<lparr>userRole = ''admin'', permissions = [], loading = False, hasFetched = True\<rparr>
      \<lparr>rpc_get_user_role = Rejects, select_page_permissions = Rejects\<rparr>))
      \<lparr>userRole = ''admin'', permissions = [], loading = False, hasFetched = True\<rparr>) = ''admin''"
  by (simp add: effects_def fetch_effect_def fetch_effect_fires_def
        reset_effect_fires_def reset_effect_def run_Cons run_Nil)

text \<open>
  Claim C5, at the input where the code departs from it: the admin \<open>u1\<close>, whose fetch has
  completed, is replaced by \<open>u2\<close> while \<open>authLoading\<close> is unset. In the commit of that
  render the fetch effect runs first. It sees the new user together with the \<open>hasFetched\<close>
  of \<open>u1\<close> and is short-circuited, whatever the services would do; the only action of the
  commit is the reset, which comes after it. The commit leaves \<open>u2\<close> with the role of
  \<open>u1\<close> and \<open>loading\<close> unset.
\<close>

theorem identity_change_stale_fetched:
  "fetch_effect \<lparr>user = Some \<lparr>ref = 1, user_id = ''u2''\<rparr>, authLoading = False\<rparr>
      \<lparr>userRole = ''admin'', permissions = [], loading = False, hasFetched = True\<rparr> sv = Return [] \<and>
   effects
      (Some (\<lparr>user = Some \<lparr>ref = 0, user_id = ''u1''\<rparr>, authLoading = False\<rparr>,
             \<lparr>userRole = ''admin'', permissions = [], loading = False, hasFetched = True\<rparr>))
      \<lparr>user = Some \<lparr>ref = 1, user_id = ''u2''\<rparr>, authLoading = False\<rparr>
      \<lparr>userRole = ''admin'', permissions = [], loading = False, hasFetched = True\<rparr> sv
    = Return [SetHasFetched False] \<and>
   run (started (effects
      (Some (\<lparr>user = Some \<lparr>ref = 0, user_id = ''u1''\<rparr>, authLoading = False\<rparr>,
             \<lparr>userRole = ''admin'', permissions = [], loading = False, hasFetched = True\<rparr>))
      \<lparr>user = Some \<lparr>ref = 1, user_id = ''u2''\<rparr>, authLoading = False\<rparr>
      \<lparr>userRole = ''admin'', permissions = [], loading = False, hasFetched = True\<rparr> sv))
      \<lparr>userRole = ''admin'', permissions = [], loading = False, hasFetched = True\<rparr> =
     \<lparr>userRole = ''admin'', permissions = [], loading = False, hasFetched = False\<rparr>"
  by (simp add: effects_def fetch_effect_def fetch_effect_fires_def fetchPermissions_def
        reset_effect_fires_def reset_effect_def run_Cons run_Nil)

text \<open>
  What follows: the next render has \<open>hasFetched\<close> unset, so its fetch effect fires again
  and calls the \<open>fetchPermissions\<close> that fetches. This holds for any change to a user with
  another id, also from no user, as long as \<open>hasFetched\<close> was still set.
\<close>

lemma identity_change_deferred_fetch:
  assumes "hasFetched s"
    and "map_option user_id (user a1) \<noteq> Some (user_id u2)"
  shows "renders (Some (a1, s)) s
           [(\<lparr>user = Some u2, authLoading = False\<rparr>, sv1),
            (\<lparr>user = Some u2, authLoading = False\<rparr>, sv2)] =
         SetHasFetched False # started (fetchPermissions (Some u2) False sv2)"
proof -
  have differs: "user a1 \<noteq> Some u2"
    using assms(2) by auto
  have first: "effects (Some (a1, s)) \<lparr>user = Some u2, authLoading = False\<rparr> s sv1 =
      Return [SetHasFetched False]"
    using assms differs
    by (simp add: effects_def fetch_effect_def fetch_effect_fires_def fetchPermissions_def
          reset_effect_fires_def reset_effect_def)
  have second: "started (effects (Some (\<lparr>user = Some u2, authLoading = False\<rparr>, s))
      \<lparr>user = Some u2, authLoading = False\<rparr> (run [SetHasFetched False] s) sv2) =
      started (fetchPermissions (Some u2) False sv2)"
    using assms(1)
    by (cases "fetchPermissions (Some u2) False sv2")
       (simp_all add: effects_def fetch_effect_def fetch_effect_fires_def
          reset_effect_fires_def run_Cons run_Nil)
  show ?thesis
    by (simp add: first second Let_def)
qed

end
